theory Spec2Isabelle
  imports Main "HOL-Library.Char_ord" "HOL-Library.List_Lexorder" "HOL-Library.Multiset"
begin

section \<open>Schedule events of the hourly calendar screen\<close>

text \<open>
  The calendar screens draw class schedules. A schedule carries its weekday key, its
  start time and its end time; the field names are Vietnamese in the source and are
  written without their diacritics here. The two times are \<^verbatim>\<open>HH:MM\<close> strings. The source
  compares them with \<^verbatim>\<open><\<close> and \<^verbatim>\<open>></\<close> on strings, which in JavaScript is the
  lexicographic order of the code units: on ASCII strings, the order of
  \<^typ>\<open>string\<close> used here.
\<close>

record ClassSchedule =
  Thu :: nat
  Gio_bat_dau :: string
  Gio_ket_thuc :: string

record ScheduleEvent =
  classId :: string
  schedule :: ClassSchedule
  date :: string

record Positioned =
  event :: ScheduleEvent
  column :: nat
  totalColumns :: nat

subsection \<open>groupOverlappingEvents\<close>

text \<open>
  The test of the two filters of \<^verbatim>\<open>groupOverlappingEvents\<close>:
  \<^verbatim>\<open>eventStart < pEnd && eventEnd > pStart\<close>.
\<close>

definition overlaps :: "ScheduleEvent \<Rightarrow> ScheduleEvent \<Rightarrow> bool" where
  "overlaps e p \<longleftrightarrow>
     Gio_bat_dau (schedule e) < Gio_ket_thuc (schedule p) \<and>
     Gio_ket_thuc (schedule e) > Gio_bat_dau (schedule p)"

text \<open>
  \<^verbatim>\<open>let column = 0; while (usedColumns.has(column)) column++;\<close> The set of used
  columns is kept as the list it is built from.
\<close>

function firstFree :: "nat list \<Rightarrow> nat \<Rightarrow> nat" where
  "firstFree usedColumns c =
     (if c \<in> set usedColumns then firstFree usedColumns (Suc c) else c)"
  by pat_completeness auto
termination
proof (relation "measure (\<lambda>(used, c). length (filter (\<lambda>u. c \<le> u) used))")
  show "wf (measure (\<lambda>(used, c). length (filter (\<lambda>u. c \<le> u) used)))"
    by simp
next
  fix usedColumns :: "nat list" and c :: nat
  assume mem: "c \<in> set usedColumns"
  have "filter (\<lambda>u. Suc c \<le> u) usedColumns
          = filter (\<lambda>u. Suc c \<le> u) (filter (\<lambda>u. c \<le> u) usedColumns)"
    by (simp add: conj_commute) (metis Suc_leD)
  moreover have "length (filter (\<lambda>u. Suc c \<le> u) (filter (\<lambda>u. c \<le> u) usedColumns))
          < length (filter (\<lambda>u. c \<le> u) usedColumns)"
    by (rule length_filter_less [where x = c]) (use mem in auto)
  ultimately show "((usedColumns, Suc c), (usedColumns, c))
          \<in> measure (\<lambda>(used, c). length (filter (\<lambda>u. c \<le> u) used))"
    by simp
qed

declare firstFree.simps [simp del]

text \<open>
  One round of \<^verbatim>\<open>sorted.forEach\<close>: the events already placed that overlap the
  new one, the first column free among theirs, the push of the new entry, and the
  update of \<^verbatim>\<open>totalColumns\<close> on the overlapping entries and on the new one.
  \<^verbatim>\<open>Math.max(column + 1, ...overlapping.map(p => p.totalColumns))\<close> is the
  fold of \<^const>\<open>max\<close>.
\<close>

definition placeEvent :: "ScheduleEvent \<Rightarrow> Positioned list \<Rightarrow> Positioned list" where
  "placeEvent ev positioned =
     (let overlapping = filter (\<lambda>p. overlaps ev (event p)) positioned;
          usedColumns = map column overlapping;
          col = firstFree usedColumns 0;
          maxColumn = fold max (map totalColumns overlapping) (col + 1)
      in map (\<lambda>p. if overlaps ev (event p) then p\<lparr>totalColumns := maxColumn\<rparr> else p)
           positioned
         @ [\<lparr>event = ev, column = col, totalColumns = maxColumn\<rparr>])"

text \<open>
  The final pass: for every index pair \<open>(i, j)\<close>, \<open>i\<close> outermost, both in
  ascending order, with \<open>i \<noteq> j\<close> and overlapping events, both entries take the
  larger of their two \<^verbatim>\<open>totalColumns\<close>.
\<close>

definition reconcile :: "nat \<times> nat \<Rightarrow> Positioned list \<Rightarrow> Positioned list" where
  "reconcile ij positioned =
     (let i = fst ij; j = snd ij; p = positioned ! i; other = positioned ! j
      in if i = j then positioned
         else if Gio_bat_dau (schedule (event p)) < Gio_ket_thuc (schedule (event other))
               \<and> Gio_ket_thuc (schedule (event p)) > Gio_bat_dau (schedule (event other))
         then (let maxCols = max (totalColumns p) (totalColumns other)
               in positioned[i := p\<lparr>totalColumns := maxCols\<rparr>,
                             j := other\<lparr>totalColumns := maxCols\<rparr>])
         else positioned)"

definition finalPass :: "Positioned list \<Rightarrow> Positioned list" where
  "finalPass positioned =
     fold reconcile
       (List.product [0..<length positioned] [0..<length positioned]) positioned"

text \<open>
  \<^verbatim>\<open>[...events].sort((a, b) => a.start.localeCompare(b.start))\<close>: a sort of a
  copy of the input by start time. \<^verbatim>\<open>localeCompare\<close> is the collation of the
  host, which is not part of the source: it is a parameter here, a function from two
  strings to a number that is negative, zero or positive. The sort of JavaScript is
  stable: it puts \<open>a\<close> before \<open>b\<close> when the comparator is negative on
  them, \<open>b\<close> before \<open>a\<close> when it is positive, and keeps the order of the
  input when it is zero. For a comparator that is a consistent ordering this fixes the
  result: the one of the insertion below, which puts an element before the first one
  it is not greater than.
\<close>

fun insertByStart ::
  "(string \<Rightarrow> string \<Rightarrow> int) \<Rightarrow> ScheduleEvent \<Rightarrow> ScheduleEvent list \<Rightarrow> ScheduleEvent list" where
  "insertByStart localeCompare a [] = [a]"
| "insertByStart localeCompare a (b # bs) =
     (if localeCompare (Gio_bat_dau (schedule a)) (Gio_bat_dau (schedule b)) \<le> 0
      then a # b # bs else b # insertByStart localeCompare a bs)"

definition sortByStart ::
  "(string \<Rightarrow> string \<Rightarrow> int) \<Rightarrow> ScheduleEvent list \<Rightarrow> ScheduleEvent list" where
  "sortByStart localeCompare events = foldr (insertByStart localeCompare) events []"

definition groupOverlappingEvents ::
  "(string \<Rightarrow> string \<Rightarrow> int) \<Rightarrow> ScheduleEvent list \<Rightarrow> Positioned list" where
  "groupOverlappingEvents localeCompare events =
     (if length events = 0 then []
      else finalPass (fold placeEvent (sortByStart localeCompare events) []))"

text \<open>
  The times that the application writes are zero-padded \<^verbatim>\<open>HH:MM\<close> strings
  (\<^verbatim>\<open>format("HH:mm")\<close>): two digits, a colon, two digits, the minutes below
  sixty. On such strings every collation orders two strings as their digits do, that
  is, as their code units do; \<open>compareCodeUnits\<close> is that comparison.
\<close>

definition is_digit :: "char \<Rightarrow> bool" where
  "is_digit c \<longleftrightarrow> CHR ''0'' \<le> c \<and> c \<le> CHR ''9''"

fun paddedTime :: "string \<Rightarrow> bool" where
  "paddedTime [h1, h2, c, m1, m2] \<longleftrightarrow>
     is_digit h1 \<and> is_digit h2 \<and> c = CHR '':'' \<and> is_digit m1 \<and> is_digit m2
     \<and> m1 \<le> CHR ''5''"
| "paddedTime _ \<longleftrightarrow> False"

definition compareCodeUnits :: "string \<Rightarrow> string \<Rightarrow> int" where
  "compareCodeUnits a b = (if a < b then - 1 else if b < a then 1 else 0)"

definition ordersPaddedTimes :: "(string \<Rightarrow> string \<Rightarrow> int) \<Rightarrow> bool" where
  "ordersPaddedTimes localeCompare \<longleftrightarrow>
     (\<forall>a b. paddedTime a \<and> paddedTime b \<longrightarrow> (localeCompare a b \<le> 0) = (a \<le> b))"

text \<open>The minutes from midnight that a zero-padded time stands for.\<close>

definition clockMinutes :: "string \<Rightarrow> int" where
  "clockMinutes s =
     (case s of
        [h1, h2, c, m1, m2] \<Rightarrow>
          (10 * (int (of_char h1) - 48) + (int (of_char h2) - 48)) * 60
            + 10 * (int (of_char m1) - 48) + (int (of_char m2) - 48)
      | _ \<Rightarrow> 0)"

section \<open>The week calendar screen\<close>

text \<open>
  The second screen keeps, for every event, its start in minutes from midnight and its
  duration in minutes; \<^verbatim>\<open>date\<close> is the calendar day the event falls on, a day
  number here, so that \<^verbatim>\<open>e.date.isSame(day, "day")\<close> is equality.
\<close>

record WeekScheduleEvent =
  wclassId :: string
  wschedule :: ClassSchedule
  wdate :: nat
  startMinutes :: int
  durationMinutes :: int

text \<open>
  \<^verbatim>\<open>{...event, column: 0, totalColumns: 1}\<close>: the event with its two layout
  fields.
\<close>

record WeekPositioned =
  wevent :: WeekScheduleEvent
  wcolumn :: nat
  wtotalColumns :: nat

subsection \<open>The column pass of getWeekEvents\<close>

text \<open>The overlap test of the inner loop, with its two local end times.\<close>

definition weekOverlap :: "WeekScheduleEvent \<Rightarrow> WeekScheduleEvent \<Rightarrow> bool" where
  "weekOverlap currentEvent otherEvent \<longleftrightarrow>
     (let currentEnd = startMinutes currentEvent + durationMinutes currentEvent;
          otherEnd = startMinutes otherEvent + durationMinutes otherEvent
      in (startMinutes otherEvent < currentEnd
            \<and> startMinutes otherEvent \<ge> startMinutes currentEvent)
         \<or> (startMinutes currentEvent < otherEnd
            \<and> startMinutes currentEvent \<ge> startMinutes otherEvent))"

text \<open>
  The objects of \<^verbatim>\<open>eventsWithColumns\<close> are shared with \<^verbatim>\<open>dayEvents\<close> and
  with \<^verbatim>\<open>overlapping\<close> and are updated in place, so the array is the store and the
  other two hold references into it: indices. \<^verbatim>\<open>overlapping.includes\<close> compares
  references.
\<close>

definition collectOverlapping :: "WeekPositioned list \<Rightarrow> nat list \<Rightarrow> nat \<Rightarrow> nat list" where
  "collectOverlapping store dayEvents i =
     fold (\<lambda>j overlapping.
             if i = j then overlapping
             else if weekOverlap (wevent (store ! (dayEvents ! i)))
                                 (wevent (store ! (dayEvents ! j)))
             then (if dayEvents ! j \<in> set overlapping then overlapping
                   else overlapping @ [dayEvents ! j])
             else overlapping)
       [0..<length dayEvents] [dayEvents ! i]"

definition assignIndices :: "nat list \<Rightarrow> WeekPositioned list \<Rightarrow> WeekPositioned list" where
  "assignIndices overlapping store =
     fold (\<lambda>(index, r) st.
             st[r := (st ! r)\<lparr>wcolumn := index, wtotalColumns := length overlapping\<rparr>])
       (enumerate 0 overlapping) store"

definition layoutCurrent :: "nat list \<Rightarrow> nat \<Rightarrow> WeekPositioned list \<Rightarrow> WeekPositioned list" where
  "layoutCurrent dayEvents i store =
     (let overlapping = collectOverlapping store dayEvents i
      in if length overlapping > 1 then assignIndices overlapping store else store)"

text \<open>
  One round of \<^verbatim>\<open>weekDays.forEach\<close>: the events of the day, sorted by
  \<^verbatim>\<open>a.startMinutes - b.startMinutes\<close> (a stable sort), then the loop over \<open>i\<close>.
\<close>

definition layoutDay :: "nat \<Rightarrow> WeekPositioned list \<Rightarrow> WeekPositioned list" where
  "layoutDay day store =
     (let dayEvents =
            sort_key (\<lambda>r. startMinutes (wevent (store ! r)))
              (filter (\<lambda>r. wdate (wevent (store ! r)) = day) [0..<length store])
      in fold (layoutCurrent dayEvents) [0..<length dayEvents] store)"

text \<open>
  \<^verbatim>\<open>getWeekEvents\<close> from the point where \<^verbatim>\<open>events\<close> has been collected: the
  days of the week shown and the events are its inputs.
\<close>

definition getWeekEvents :: "nat list \<Rightarrow> WeekScheduleEvent list \<Rightarrow> WeekPositioned list" where
  "getWeekEvents weekDays events =
     (let eventsWithColumns =
            map (\<lambda>e. \<lparr>wevent = e, wcolumn = 0, wtotalColumns = 1\<rparr>) events
      in fold layoutDay weekDays eventsWithColumns)"

section \<open>Time strings\<close>

text \<open>
  A time field read from a stored record is a string or is absent (\<^verbatim>\<open>undefined\<close>,
  here \<^const>\<open>None\<close>). Calling a method on an absent value raises a
  \<^verbatim>\<open>TypeError\<close>.
\<close>

datatype error = TypeError

text \<open>\<^verbatim>\<open>s.split(":")\<close> on a string.\<close>

fun split_colon :: "string \<Rightarrow> string list" where
  "split_colon [] = [[]]"
| "split_colon (c # cs) =
     (if c = CHR '':'' then [] # split_colon cs
      else (case split_colon cs of [] \<Rightarrow> [[c]] | w # ws \<Rightarrow> (c # w) # ws))"

text \<open>
  \<^verbatim>\<open>Number\<close> on a string of decimal digits, the empty string being \<open>0\<close>. A number
  is an integer or \<^verbatim>\<open>NaN\<close> (\<^const>\<open>None\<close>); the integers that hours and minutes
  give are far below the \<open>2\<^sup>5\<^sup>3\<close> up to which a JavaScript number holds every
  integer exactly. Every other string is read as \<^verbatim>\<open>NaN\<close>: signs, fractions,
  exponents, radix prefixes and white space, which \<^verbatim>\<open>Number\<close> also reads, are not
  modelled.
\<close>

definition Number :: "string \<Rightarrow> int option" where
  "Number s =
     (if list_all is_digit s
      then Some (fold (\<lambda>c n. 10 * n + (int (of_char c) - 48)) s 0)
      else None)"

text \<open>
  Destructuring \<^verbatim>\<open>[a, b] = xs\<close> reads \<^verbatim>\<open>xs[0]\<close> and \<^verbatim>\<open>xs[1]\<close>; a missing
  element is \<^verbatim>\<open>undefined\<close>, which arithmetic turns into \<^verbatim>\<open>NaN\<close>.
\<close>

definition element :: "int option list \<Rightarrow> nat \<Rightarrow> int option" where
  "element xs i = (if i < length xs then xs ! i else None)"

definition js_plus :: "int option \<Rightarrow> int option \<Rightarrow> int option" where
  "js_plus a b = (case (a, b) of (Some x, Some y) \<Rightarrow> Some (x + y) | _ \<Rightarrow> None)"

definition js_minus :: "int option \<Rightarrow> int option \<Rightarrow> int option" where
  "js_minus a b = (case (a, b) of (Some x, Some y) \<Rightarrow> Some (x - y) | _ \<Rightarrow> None)"

definition js_times :: "int option \<Rightarrow> int option \<Rightarrow> int option" where
  "js_times a b = (case (a, b) of (Some x, Some y) \<Rightarrow> Some (x * y) | _ \<Rightarrow> None)"

definition Math_max :: "int option \<Rightarrow> int option \<Rightarrow> int option" where
  "Math_max a b = (case (a, b) of (Some x, Some y) \<Rightarrow> Some (max x y) | _ \<Rightarrow> None)"

subsection \<open>timeToMinutes\<close>

definition timeToMinutes :: "string option \<Rightarrow> error + int option" where
  "timeToMinutes time =
     (case time of
        None \<Rightarrow> Inl TypeError
      | Some t \<Rightarrow>
          (let parts = map Number (split_colon t);
               hours = element parts 0;
               minutes = element parts 1
           in Inr (js_plus (js_times hours (Some 60)) minutes)))"

subsection \<open>getEventStyle\<close>

record EventStyle =
  style_top :: "int option"
  style_height :: "int option"

text \<open>
  The arguments are the two fields the function reads first,
  the start time and the end time of \<^verbatim>\<open>event.schedule\<close>.
  \<^verbatim>\<open>!startTime\<close> holds of an absent value and of the empty string.
\<close>

definition falsy :: "string option \<Rightarrow> bool" where
  "falsy v = (case v of None \<Rightarrow> True | Some s \<Rightarrow> s = [])"

definition split_time :: "string option \<Rightarrow> error + int option list" where
  "split_time v =
     (case v of None \<Rightarrow> Inl TypeError | Some s \<Rightarrow> Inr (map Number (split_colon s)))"

definition getEventStyle :: "string option \<Rightarrow> string option \<Rightarrow> error + EventStyle" where
  "getEventStyle startTime endTime =
     (if falsy startTime \<or> falsy endTime
      then Inr \<lparr>style_top = Some 0, style_height = Some 60\<rparr>
      else
        (case split_time startTime of
           Inl e \<Rightarrow> Inl e
         | Inr startParts \<Rightarrow>
            (case split_time endTime of
               Inl e \<Rightarrow> Inl e
             | Inr endParts \<Rightarrow>
                (let startHour = element startParts 0; startMin = element startParts 1;
                     endHour = element endParts 0; endMin = element endParts 1;
                     startOffset = js_plus (js_times (js_minus startHour (Some 6)) (Some 60)) startMin;
                     endOffset = js_plus (js_times (js_minus endHour (Some 6)) (Some 60)) endMin;
                     duration = js_minus endOffset startOffset
                 in Inr \<lparr>style_top = startOffset,
                          style_height = Math_max duration (Some 30)\<rparr>))))"

section \<open>The day-of-week key\<close>

text \<open>
  \<^verbatim>\<open>date.day()\<close> of the date library is the weekday of the date, counted from
  Sunday as \<open>0\<close> to Saturday as \<open>6\<close>.
\<close>

datatype weekday = Sunday | Monday | Tuesday | Wednesday | Thursday | Friday | Saturday

fun day :: "weekday \<Rightarrow> nat" where
  "day Sunday = 0"
| "day Monday = 1"
| "day Tuesday = 2"
| "day Wednesday = 3"
| "day Thursday = 4"
| "day Friday = 5"
| "day Saturday = 6"

text \<open>\<^verbatim>\<open>date.day() === 0 ? 8 : date.day() + 1\<close>\<close>

definition dayOfWeek :: "weekday \<Rightarrow> nat" where
  "dayOfWeek d = (if day d = 0 then 8 else day d + 1)"

section \<open>From class schedules to the events of the two screens\<close>

definition sched :: "string \<Rightarrow> string \<Rightarrow> ClassSchedule" where
  "sched s e = \<lparr>Thu = 2, Gio_bat_dau = s, Gio_ket_thuc = e\<rparr>"

text \<open>
  The hourly screen pushes \<^verbatim>\<open>{ class, schedule, date: dateStr }\<close>; the day used in
  the examples is a Monday, key \<open>2\<close>.
\<close>

definition classEvent :: "string \<Rightarrow> ClassSchedule \<Rightarrow> ScheduleEvent" where
  "classEvent c s = \<lparr>classId = c, schedule = s, date = ''2025-01-06''\<rparr>"

text \<open>
  The week screen pushes the same fields and, beside them,
  \<^verbatim>\<open>startMinutes = timeToMinutes(start)\<close> and
  \<^verbatim>\<open>durationMinutes = timeToMinutes(end) - startMinutes\<close>. The result is
  \<^const>\<open>None\<close> where a time is not a pair of digit strings, the events of the
  column pass holding integers.
\<close>

definition weekEvent :: "string \<Rightarrow> ClassSchedule \<Rightarrow> nat \<Rightarrow> WeekScheduleEvent option" where
  "weekEvent c s d =
     (case (timeToMinutes (Some (Gio_bat_dau s)), timeToMinutes (Some (Gio_ket_thuc s))) of
        (Inr (Some startM), Inr (Some endM)) \<Rightarrow>
          Some \<lparr>wclassId = c, wschedule = s, wdate = d,
                startMinutes = startM, durationMinutes = endM - startM\<rparr>
      | _ \<Rightarrow> None)"

text \<open>
  The interval of a week event, and the overlap of two intervals as the data model
  states it: \<^verbatim>\<open>A.start < B.end && B.start < A.end\<close>.
\<close>

definition endMinutes :: "WeekScheduleEvent \<Rightarrow> int" where
  "endMinutes e = startMinutes e + durationMinutes e"

definition intervalsOverlap :: "WeekScheduleEvent \<Rightarrow> WeekScheduleEvent \<Rightarrow> bool" where
  "intervalsOverlap a b \<longleftrightarrow> startMinutes a < endMinutes b \<and> startMinutes b < endMinutes a"

section \<open>Example days\<close>

text \<open>
  Three classes in a chain: A 09:00 to 10:00, B 09:30 to 10:30, C 10:15 to 11:00.
  A overlaps B and B overlaps C, while A and C do not overlap.
\<close>

definition chainSchedules :: "(string \<times> ClassSchedule) list" where
  "chainSchedules =
     [(''A'', sched ''09:00'' ''10:00''),
      (''B'', sched ''09:30'' ''10:30''),
      (''C'', sched ''10:15'' ''11:00'')]"

definition chainEvents :: "ScheduleEvent list" where
  "chainEvents = map (\<lambda>(c, s). classEvent c s) chainSchedules"

definition chainWeekEvents :: "WeekScheduleEvent list" where
  "chainWeekEvents =
     [\<lparr>wclassId = ''A'', wschedule = sched ''09:00'' ''10:00'', wdate = 0,
        startMinutes = 540, durationMinutes = 60\<rparr>,
      \<lparr>wclassId = ''B'', wschedule = sched ''09:30'' ''10:30'', wdate = 0,
        startMinutes = 570, durationMinutes = 60\<rparr>,
      \<lparr>wclassId = ''C'', wschedule = sched ''10:15'' ''11:00'', wdate = 0,
        startMinutes = 615, durationMinutes = 45\<rparr>]"

text \<open>
  Five classes: K 08:00 to 10:00, J 09:00 to 12:00, M 11:00 to 18:00, and X and Y both
  13:00 to 18:00. K overlaps J only, J overlaps K and M, and M, X and Y overlap one
  another.
\<close>

definition stairEvents :: "ScheduleEvent list" where
  "stairEvents =
     [classEvent ''K'' (sched ''08:00'' ''10:00''),
      classEvent ''J'' (sched ''09:00'' ''12:00''),
      classEvent ''M'' (sched ''11:00'' ''18:00''),
      classEvent ''X'' (sched ''13:00'' ''18:00''),
      classEvent ''Y'' (sched ''13:00'' ''18:00'')]"

text \<open>
  A zero-duration class P at 09:00 beside a class Q from 09:00 to 10:00: the two
  intervals do not overlap, P ending where Q starts.
\<close>

definition pointSchedules :: "(string \<times> ClassSchedule) list" where
  "pointSchedules =
     [(''P'', sched ''09:00'' ''09:00''),
      (''Q'', sched ''09:00'' ''10:00'')]"

definition pointWeekEvents :: "WeekScheduleEvent list" where
  "pointWeekEvents =
     [\<lparr>wclassId = ''P'', wschedule = sched ''09:00'' ''09:00'', wdate = 0,
        startMinutes = 540, durationMinutes = 0\<rparr>,
      \<lparr>wclassId = ''Q'', wschedule = sched ''09:00'' ''10:00'', wdate = 0,
        startMinutes = 540, durationMinutes = 60\<rparr>]"

text \<open>
  Two classes one after the other, D 08:00 to 09:00 and E 09:00 to 10:00, for the
  hourly screen and for the week screen, where E is also held on a second day.
\<close>

definition apartEvents :: "ScheduleEvent list" where
  "apartEvents =
     [classEvent ''E'' (sched ''09:00'' ''10:00''),
      classEvent ''D'' (sched ''08:00'' ''09:00'')]"



section \<open>Days without overlap\<close>


text \<open>
  The week screen holds the events of several days and lays out each day on its own:
  there two events overlap when they fall on the same day and their intervals overlap.
\<close>

definition sameDayOverlap :: "WeekScheduleEvent \<Rightarrow> WeekScheduleEvent \<Rightarrow> bool" where
  "sameDayOverlap a b \<longleftrightarrow> wdate a = wdate b \<and> intervalsOverlap a b"

fun noSameDayOverlap :: "WeekScheduleEvent list \<Rightarrow> bool" where
  "noSameDayOverlap [] = True"
| "noSameDayOverlap (e # es) =
     (list_all (\<lambda>p. \<not> sameDayOverlap e p) es \<and> noSameDayOverlap es)"

text \<open>
  The specification takes an event of zero duration, or with its end before its
  start, as an event of a minimum duration: the duration is floored to a small
  positive constant \<open>m\<close>. The overlap of two events of a day with their durations
  floored:
\<close>

definition flooredEnd :: "int \<Rightarrow> WeekScheduleEvent \<Rightarrow> int" where
  "flooredEnd m e = startMinutes e + max (durationMinutes e) m"

definition flooredOverlap :: "int \<Rightarrow> WeekScheduleEvent \<Rightarrow> WeekScheduleEvent \<Rightarrow> bool" where
  "flooredOverlap m a b \<longleftrightarrow>
     wdate a = wdate b \<and> startMinutes a < flooredEnd m b \<and> startMinutes b < flooredEnd m a"

fun noFlooredOverlap :: "int \<Rightarrow> WeekScheduleEvent list \<Rightarrow> bool" where
  "noFlooredOverlap m [] = True"
| "noFlooredOverlap m (e # es) =
     (list_all (\<lambda>p. \<not> flooredOverlap m e p) es \<and> noFlooredOverlap m es)"

section \<open>Overlap groups\<close>






section \<open>groupOverlappingEvents on the arrays it touches\<close>

text \<open>
  \<^verbatim>\<open>Array.prototype.sort\<close> sorts the array it is called on, in place, and
  \<^verbatim>\<open>[...events]\<close> allocates a new array with the elements of \<^verbatim>\<open>events\<close>. To
  see what the function does to the array of its caller, the arrays of events live in
  a store, a reference being the index of an array in it; a new array is put at the
  end. The entries of \<^verbatim>\<open>positioned\<close> are new objects that only the result holds, so
  the result is returned as a value.
\<close>

type_synonym arrays = "ScheduleEvent list list"

definition spread :: "nat \<Rightarrow> arrays \<Rightarrow> nat \<times> arrays" where
  "spread r h = (length h, h @ [h ! r])"

definition sortInPlace :: "(string \<Rightarrow> string \<Rightarrow> int) \<Rightarrow> nat \<Rightarrow> arrays \<Rightarrow> arrays" where
  "sortInPlace localeCompare r h = h[r := sortByStart localeCompare (h ! r)]"

definition groupOverlappingEventsOn ::
  "(string \<Rightarrow> string \<Rightarrow> int) \<Rightarrow> nat \<Rightarrow> arrays \<Rightarrow> Positioned list \<times> arrays" where
  "groupOverlappingEventsOn localeCompare events h =
     (if length (h ! events) = 0 then ([], h)
      else (let (sorted, h1) = spread events h;
                h2 = sortInPlace localeCompare sorted h1
            in (finalPass (fold placeEvent (h2 ! sorted) []), h2)))"

section \<open>The keys of the days of the week\<close>

text \<open>
  Claim C8. The key derived from the weekday of a date is \<open>2\<close> for Monday and so on
  up to \<open>7\<close> for Saturday, and \<open>8\<close> for Sunday: it is \<open>8\<close> for Sunday and
  the weekday index plus one otherwise, so it lies between \<open>2\<close> and \<open>8\<close> and is
  never \<open>1\<close>.
\<close>

theorem dayOfWeek_keys:
  "map dayOfWeek [Monday, Tuesday, Wednesday, Thursday, Friday, Saturday, Sunday]
     = [2, 3, 4, 5, 6, 7, 8]
   \<and> dayOfWeek d = (if d = Sunday then 8 else day d + 1)
   \<and> dayOfWeek d \<noteq> 1 \<and> 2 \<le> dayOfWeek d \<and> dayOfWeek d \<le> 8"
  by (cases d) (simp_all add: dayOfWeek_def)

section \<open>The overlap test of the week screen\<close>

text \<open>
  Claim C10. For two events of positive duration, the test of the week screen, with
  \<open>a\<close> the current event and \<open>b\<close> the other one, holds exactly when the two
  intervals overlap: \<open>a\<close> starts before \<open>b\<close> ends and \<open>b\<close> starts before
  \<open>a\<close> ends.
\<close>

theorem weekOverlap_iff_intervalsOverlap:
  assumes "0 < durationMinutes a" and "0 < durationMinutes b"
  shows "weekOverlap a b \<longleftrightarrow> intervalsOverlap a b"
  using assms
  by (auto simp: weekOverlap_def intervalsOverlap_def endMinutes_def Let_def)

theorem weekOverlap_iff_intervalsOverlap_witness:
  "0 < durationMinutes \<lparr>wclassId = ''A'', wschedule = sched ''09:00'' ''10:00'', wdate = 0,
        startMinutes = 540, durationMinutes = 60\<rparr>
   \<and> 0 < durationMinutes \<lparr>wclassId = ''B'', wschedule = sched ''09:30'' ''10:30'', wdate = 0,
        startMinutes = 570, durationMinutes = 60\<rparr>
   \<and> weekOverlap \<lparr>wclassId = ''A'', wschedule = sched ''09:00'' ''10:00'', wdate = 0,
        startMinutes = 540, durationMinutes = 60\<rparr>
       \<lparr>wclassId = ''B'', wschedule = sched ''09:30'' ''10:30'', wdate = 0,
        startMinutes = 570, durationMinutes = 60\<rparr>
   \<and> intervalsOverlap \<lparr>wclassId = ''A'', wschedule = sched ''09:00'' ''10:00'', wdate = 0,
        startMinutes = 540, durationMinutes = 60\<rparr>
       \<lparr>wclassId = ''B'', wschedule = sched ''09:30'' ''10:30'', wdate = 0,
        startMinutes = 570, durationMinutes = 60\<rparr>"
  using weekOverlap_iff_intervalsOverlap
    [of "\<lparr>wclassId = ''A'', wschedule = sched ''09:00'' ''10:00'', wdate = 0,
        startMinutes = 540, durationMinutes = 60\<rparr>"
        "\<lparr>wclassId = ''B'', wschedule = sched ''09:30'' ''10:30'', wdate = 0,
        startMinutes = 570, durationMinutes = 60\<rparr>"]
  by (simp add: intervalsOverlap_def endMinutes_def)

section \<open>Facts about groupOverlappingEvents\<close>

subsection \<open>The first free column and one placement\<close>

lemma firstFree_notin: "firstFree used c \<notin> set used"
  by (induction used c rule: firstFree.induct) (subst firstFree.simps, simp)

lemma firstFree_ge: "c \<le> firstFree used c"
proof (induction used c rule: firstFree.induct)
  case (1 used c)
  show ?case
  proof (cases "c \<in> set used")
    case True
    with 1 have "Suc c \<le> firstFree used (Suc c)" by simp
    with True show ?thesis by (subst firstFree.simps) simp
  next
    case False
    then show ?thesis by (subst firstFree.simps) simp
  qed
qed







lemma fold_placeEvent_snoc:
  "fold placeEvent (xs @ [x]) ps = placeEvent x (fold placeEvent xs ps)"
  by simp




subsection \<open>The final pass changes nothing but totalColumns\<close>










subsection \<open>The sort\<close>





lemma sortByStart_Cons:
  "sortByStart lc (a # events) = insertByStart lc a (sortByStart lc events)"
  by (simp add: sortByStart_def)

text \<open>
  A comparator that orders the start times of the input as the code units do sorts as
  the stable sort by the start string.
\<close>

lemma insertByStart_insort_key:
  assumes "\<And>b. b \<in> set bs \<Longrightarrow>
      (lc (Gio_bat_dau (schedule a)) (Gio_bat_dau (schedule b)) \<le> 0)
        = (Gio_bat_dau (schedule a) \<le> Gio_bat_dau (schedule b))"
  shows "insertByStart lc a bs = insort_key (\<lambda>e. Gio_bat_dau (schedule e)) a bs"
  using assms by (induction bs) simp_all

lemma sortByStart_sort_key:
  assumes "\<And>a b. a \<in> set events \<Longrightarrow> b \<in> set events \<Longrightarrow>
      (lc (Gio_bat_dau (schedule a)) (Gio_bat_dau (schedule b)) \<le> 0)
        = (Gio_bat_dau (schedule a) \<le> Gio_bat_dau (schedule b))"
  shows "sortByStart lc events = sort_key (\<lambda>e. Gio_bat_dau (schedule e)) events"
  using assms
proof (induction events)
  case Nil
  show ?case by (simp add: sortByStart_def)
next
  case (Cons a events)
  have IH: "sortByStart lc events = sort_key (\<lambda>e. Gio_bat_dau (schedule e)) events"
    using Cons.prems by (intro Cons.IH) simp_all
  have "insertByStart lc a (sort_key (\<lambda>e. Gio_bat_dau (schedule e)) events)
      = insort_key (\<lambda>e. Gio_bat_dau (schedule e)) a (sort_key (\<lambda>e. Gio_bat_dau (schedule e)) events)"
    using Cons.prems by (intro insertByStart_insort_key) simp_all
  then show ?case by (simp add: sortByStart_Cons IH)
qed

lemma compareCodeUnits_le: "(compareCodeUnits a b \<le> 0) = (a \<le> b)"
  by (auto simp: compareCodeUnits_def)


lemma sortByStart_compareCodeUnits:
  "sortByStart compareCodeUnits events = sort_key (\<lambda>e. Gio_bat_dau (schedule e)) events"
  by (rule sortByStart_sort_key) (rule compareCodeUnits_le)

lemma sortByStart_padded:
  assumes "ordersPaddedTimes lc"
    and "list_all (\<lambda>e. paddedTime (Gio_bat_dau (schedule e))) events"
  shows "sortByStart lc events = sort_key (\<lambda>e. Gio_bat_dau (schedule e)) events"
proof (rule sortByStart_sort_key)
  fix a b assume "a \<in> set events" "b \<in> set events"
  with assms(2) have "paddedTime (Gio_bat_dau (schedule a))" "paddedTime (Gio_bat_dau (schedule b))"
    by (simp_all add: list_all_iff)
  with assms(1) show "(lc (Gio_bat_dau (schedule a)) (Gio_bat_dau (schedule b)) \<le> 0)
        = (Gio_bat_dau (schedule a) \<le> Gio_bat_dau (schedule b))"
    by (simp add: ordersPaddedTimes_def)
qed

text \<open>
  On zero-padded times the layout is the same for every collation that orders them as
  their digits do, the comparison by code units among them.
\<close>

lemma groupOverlappingEvents_padded:
  assumes "ordersPaddedTimes lc"
    and "list_all (\<lambda>e. paddedTime (Gio_bat_dau (schedule e))) events"
  shows "groupOverlappingEvents lc events = groupOverlappingEvents compareCodeUnits events"
  using assms
  by (simp add: groupOverlappingEvents_def sortByStart_padded sortByStart_compareCodeUnits)

subsection \<open>The result, entry by entry\<close>




subsection \<open>The column of an event is the first one free\<close>







section \<open>The example days, evaluated\<close>

text \<open>
  The times of the example days are zero-padded. The layouts of these days are
  computed below with the comparison by code units; by
  \<open>groupOverlappingEvents_padded\<close> they are the layouts under every collation that
  orders zero-padded times as their digits do.
\<close>

lemma example_days_padded:
  "list_all (\<lambda>e. paddedTime (Gio_bat_dau (schedule e))) chainEvents"
  "list_all (\<lambda>e. paddedTime (Gio_bat_dau (schedule e))) stairEvents"
  "list_all (\<lambda>e. paddedTime (Gio_bat_dau (schedule e))) apartEvents"
  by code_simp+

lemma chainWeekEvents_from_schedules:
  "map (\<lambda>(c, s). weekEvent c s 0) chainSchedules = map Some chainWeekEvents"
  by code_simp

lemma chain_group:
  "map (\<lambda>p. (classId (event p), column p, totalColumns p)) (groupOverlappingEvents compareCodeUnits chainEvents)
     = [(''A'', 0, 2), (''B'', 1, 2), (''C'', 0, 2)]"
  by code_simp

lemma chain_week:
  "map (\<lambda>p. (wclassId (wevent p), wcolumn p, wtotalColumns p)) (getWeekEvents [0] chainWeekEvents)
     = [(''A'', 1, 3), (''B'', 1, 2), (''C'', 0, 2)]"
  by code_simp

section \<open>Zero-padded times\<close>


lemma digit_not_colon: "is_digit c \<Longrightarrow> c \<noteq> CHR '':''"
  by (auto simp: is_digit_def less_eq_char_def)

lemma paddedTime_cases:
  assumes "paddedTime s"
  obtains h1 h2 m1 m2 where "s = [h1, h2, CHR '':'', m1, m2]"
    "is_digit h1" "is_digit h2" "is_digit m1" "is_digit m2" "m1 \<le> CHR ''5''"
  using assms by (cases s rule: paddedTime.cases) auto

text \<open>timeToMinutes reads a zero-padded time as its minutes from midnight.\<close>

lemma timeToMinutes_padded:
  assumes "paddedTime s"
  shows "timeToMinutes (Some s) = Inr (Some (clockMinutes s))"
proof -
  from assms obtain h1 h2 m1 m2 where s: "s = [h1, h2, CHR '':'', m1, m2]"
    and d: "is_digit h1" "is_digit h2" "is_digit m1" "is_digit m2"
    by (rule paddedTime_cases)
  have sp: "split_colon [h1, h2, CHR '':'', m1, m2] = [[h1, h2], [m1, m2]]"
    using d [THEN digit_not_colon] by simp
  show ?thesis
    unfolding s timeToMinutes_def option.case sp
    using d by (simp add: Number_def element_def js_plus_def js_times_def clockMinutes_def)
qed







section \<open>Sorting and first fit\<close>



section \<open>The two layouts compared\<close>

text \<open>
  Claim C9. The two layouts diverge: there are class schedules for which
  groupOverlappingEvents and the column pass of getWeekEvents, each fed the events its
  screen builds from these schedules, give some class a different column or a
  different totalColumns.
\<close>

theorem layouts_diverge:
  "\<exists>scheds wevents.
     map (\<lambda>(c, s). weekEvent c s 0) scheds = map Some wevents
     \<and> set (map (\<lambda>p. (classId (event p), column p, totalColumns p))
              (groupOverlappingEvents compareCodeUnits (map (\<lambda>(c, s). classEvent c s) scheds)))
       \<noteq> set (map (\<lambda>p. (wclassId (wevent p), wcolumn p, wtotalColumns p))
              (getWeekEvents [0] wevents))"
proof (intro exI conjI)
  show "map (\<lambda>(c, s). weekEvent c s 0) chainSchedules = map Some chainWeekEvents"
    by (rule chainWeekEvents_from_schedules)
  have "(''A'', 0, 2) \<in> set (map (\<lambda>p. (classId (event p), column p, totalColumns p))
              (groupOverlappingEvents compareCodeUnits (map (\<lambda>(c, s). classEvent c s) chainSchedules)))"
    using chain_group by (simp add: chainEvents_def)
  moreover have "(''A'', 0, 2) \<notin> set (map (\<lambda>p. (wclassId (wevent p), wcolumn p, wtotalColumns p))
              (getWeekEvents [0] chainWeekEvents))"
    unfolding chain_week by simp
  ultimately show "set (map (\<lambda>p. (classId (event p), column p, totalColumns p))
              (groupOverlappingEvents compareCodeUnits (map (\<lambda>(c, s). classEvent c s) chainSchedules)))
       \<noteq> set (map (\<lambda>p. (wclassId (wevent p), wcolumn p, wtotalColumns p))
              (getWeekEvents [0] chainWeekEvents))"
    by blast
qed

section \<open>Columns of overlapping events\<close>

text \<open>
  Claim C1. Two events of a layout whose intervals overlap are in different columns.
  groupOverlappingEvents keeps this, as \<open>groupOverlappingEvents_columns_differ\<close>
  shows. The column pass of getWeekEvents breaks it: on the chain day it ends with A
  and B, which overlap, both in column \<open>1\<close>, every round of its loop writing over
  the columns of the rounds before.
\<close>

theorem getWeekEvents_overlapping_same_column:
  "intervalsOverlap (wevent (getWeekEvents [0] chainWeekEvents ! 0))
                    (wevent (getWeekEvents [0] chainWeekEvents ! 1))
   \<and> wcolumn (getWeekEvents [0] chainWeekEvents ! 0) = 1
   \<and> wcolumn (getWeekEvents [0] chainWeekEvents ! 1) = 1"
  by code_simp

section \<open>The final pass and equal totalColumns\<close>

text \<open>
  Claim C3. All events of an overlap cluster end with one totalColumns, the largest
  number of events active at once. The final pass of groupOverlappingEvents, which its
  comment says is there to give all overlapping events the same totalColumns, runs
  once and does not reach this: on the day of five classes K and J overlap, and K ends
  with \<open>2\<close> while J ends with \<open>3\<close>.
\<close>

theorem groupOverlappingEvents_unequal_totalColumns:
  "overlaps (event (groupOverlappingEvents compareCodeUnits stairEvents ! 0))
            (event (groupOverlappingEvents compareCodeUnits stairEvents ! 1))
   \<and> totalColumns (groupOverlappingEvents compareCodeUnits stairEvents ! 0) = 2
   \<and> totalColumns (groupOverlappingEvents compareCodeUnits stairEvents ! 1) = 3
   \<and> map (\<lambda>p. (classId (event p), column p, totalColumns p)) (groupOverlappingEvents compareCodeUnits stairEvents)
     = [(''K'', 0, 2), (''J'', 1, 3), (''M'', 0, 3), (''X'', 1, 3), (''Y'', 2, 3)]"
  by code_simp

section \<open>The layout of a day without overlap\<close>

subsection \<open>The hourly screen\<close>










subsection \<open>The week screen\<close>












lemma pointWeekEvents_from_schedules:
  "map (\<lambda>(c, s). weekEvent c s 0) pointSchedules = map Some pointWeekEvents"
  by code_simp

text \<open>
  Where the literal reading and the floored one part: a zero-duration class P at 09:00
  beside Q from 09:00 to 10:00. Taken literally the interval of P is empty and overlaps
  nothing; with any floor P and Q overlap, and the week screen, which asks whether one
  event starts inside the other, puts them side by side.
\<close>

lemma getWeekEvents_point_event_columns:
  "noSameDayOverlap pointWeekEvents
   \<and> \<not> noFlooredOverlap 1 pointWeekEvents
   \<and> map (\<lambda>p. (wclassId (wevent p), wcolumn p, wtotalColumns p)) (getWeekEvents [0] pointWeekEvents)
     = [(''P'', 1, 2), (''Q'', 0, 2)]"
  by code_simp

subsection \<open>One column for every event\<close>



section \<open>Bounds on totalColumns\<close>

subsection \<open>The largest totalColumns of a placement\<close>





lemma placeEvent_nth_new:
  "event (placeEvent ev ps ! length ps) = ev"
  "column (placeEvent ev ps ! length ps)
     = firstFree (map column (filter (\<lambda>p. overlaps ev (event p)) ps)) 0"
  "totalColumns (placeEvent ev ps ! length ps)
     = fold max (map totalColumns (filter (\<lambda>p. overlaps ev (event p)) ps))
         (firstFree (map column (filter (\<lambda>p. overlaps ev (event p)) ps)) 0 + 1)"
  by (simp_all add: placeEvent_def Let_def nth_append)




lemma placeEvent_new_column:
  assumes "i < length ps" and "overlaps ev (event (ps ! i))"
  shows "column (ps ! i) \<noteq> column (placeEvent ev ps ! length ps)"
proof -
  from assms have "column (ps ! i) \<in> set (map column (filter (\<lambda>p. overlaps ev (event p)) ps))"
    by auto
  then show ?thesis
    unfolding placeEvent_nth_new
    using firstFree_notin [of "map column (filter (\<lambda>p. overlaps ev (event p)) ps)" 0] by metis
qed



subsection \<open>The final pass only raises totalColumns\<close>








subsection \<open>The size of an overlap group\<close>


















section \<open>Bounds on totalColumns in the week screen\<close>

subsection \<open>One round of the column pass\<close>

lemma assignIndices_fold:
  "length (fold (\<lambda>(index, r) st. st[r := (st ! r)\<lparr>wcolumn := index, wtotalColumns := L\<rparr>])
             (enumerate k xs) store) = length store
   \<and> map wevent (fold (\<lambda>(index, r) st. st[r := (st ! r)\<lparr>wcolumn := index, wtotalColumns := L\<rparr>])
             (enumerate k xs) store) = map wevent store
   \<and> (\<forall>r<length store.
        wtotalColumns (fold (\<lambda>(index, r) st. st[r := (st ! r)\<lparr>wcolumn := index, wtotalColumns := L\<rparr>])
             (enumerate k xs) store ! r)
        = (if r \<in> set xs then L else wtotalColumns (store ! r)))"
proof (induction xs arbitrary: k store)
  case Nil
  show ?case by simp
next
  case (Cons x xs)
  let ?st = "store[x := (store ! x)\<lparr>wcolumn := k, wtotalColumns := L\<rparr>]"
  have len: "length ?st = length store" by simp
  have ev: "map wevent ?st = map wevent store"
  proof (cases "x < length store")
    case True
    then show ?thesis by (simp add: map_update list_update_same_conv)
  next
    case False
    then have "length store \<le> x" by simp
    then show ?thesis by (simp only: list_update_beyond)
  qed
  have tot: "wtotalColumns (?st ! r) = (if r = x then L else wtotalColumns (store ! r))"
    if "r < length store" for r
    using that by (simp add: nth_list_update)
  from Cons.IH [of "Suc k" ?st] len ev tot show ?case
    by (auto simp: )
qed

lemma assignIndices_props:
  "length (assignIndices ov store) = length store"
  "map wevent (assignIndices ov store) = map wevent store"
  "r < length store \<Longrightarrow>
     wtotalColumns (assignIndices ov store ! r)
       = (if r \<in> set ov then length ov else wtotalColumns (store ! r))"
  using assignIndices_fold [of "length ov" 0 ov store]
  by (simp_all add: assignIndices_def)

lemma layoutCurrent_props:
  "length (layoutCurrent d i store) = length store"
  "map wevent (layoutCurrent d i store) = map wevent store"
  "r < length store \<Longrightarrow>
     wtotalColumns (layoutCurrent d i store ! r)
       = (if 1 < length (collectOverlapping store d i) \<and> r \<in> set (collectOverlapping store d i)
          then length (collectOverlapping store d i) else wtotalColumns (store ! r))"
  by (simp_all add: layoutCurrent_def Let_def assignIndices_props)








subsection \<open>Overlap groups of the week screen\<close>






subsection \<open>The events of a day\<close>


subsection \<open>The upper bound\<close>



subsection \<open>What the rounds, the days and the whole pass keep\<close>

lemma layoutCurrent_keeps_2:
  assumes "r < length store" and "2 \<le> wtotalColumns (store ! r)"
  shows "2 \<le> wtotalColumns (layoutCurrent d i store ! r)"
  using assms by (simp add: layoutCurrent_props)













subsection \<open>The bounds for getWeekEvents\<close>





subsection \<open>totalColumns and the size of the overlap group\<close>




section \<open>The input array is left as it was\<close>

lemma groupOverlappingEventsOn_result:
  "fst (groupOverlappingEventsOn lc events h) = groupOverlappingEvents lc (h ! events)"
  by (simp add: groupOverlappingEventsOn_def groupOverlappingEvents_def spread_def
      sortInPlace_def Let_def)

lemma groupOverlappingEventsOn_arrays:
  "r < length h \<Longrightarrow> snd (groupOverlappingEventsOn lc events h) ! r = h ! r"
  by (simp add: groupOverlappingEventsOn_def spread_def sortInPlace_def Let_def nth_append)

text \<open>
  Claim C7. groupOverlappingEvents is a pure function of its input: it leaves every
  array that exists when it is called as it was, the array of its caller among them
  (it sorts a copy), its result is a function of the contents of that array and of
  the collation of the host alone, and a second run on the same array gives the same
  result, columns and totalColumns.
  The function assigns to no field of an event; the events are values here.
\<close>

theorem groupOverlappingEventsOn_pure:
  assumes "events < length h"
  shows "(\<forall>r<length h. snd (groupOverlappingEventsOn lc events h) ! r = h ! r)
    \<and> fst (groupOverlappingEventsOn lc events h) = groupOverlappingEvents lc (h ! events)
    \<and> fst (groupOverlappingEventsOn lc events (snd (groupOverlappingEventsOn lc events h)))
        = fst (groupOverlappingEventsOn lc events h)"
  using assms
  by (simp add: groupOverlappingEventsOn_result groupOverlappingEventsOn_arrays)

theorem groupOverlappingEventsOn_pure_witness:
  "(0::nat) < length [stairEvents]
   \<and> snd (groupOverlappingEventsOn compareCodeUnits 0 [stairEvents]) ! 0 = stairEvents
   \<and> fst (groupOverlappingEventsOn compareCodeUnits 0 (snd (groupOverlappingEventsOn compareCodeUnits 0 [stairEvents])))
        = fst (groupOverlappingEventsOn compareCodeUnits 0 [stairEvents])"
proof -
  have h: "(0::nat) < length [stairEvents]" by simp
  from groupOverlappingEventsOn_pure [OF h] show ?thesis by simp
qed

section \<open>Absent and zero-duration times\<close>

text \<open>
  getEventStyle never raises: it answers an absent or empty time with a box of height
  \<open>60\<close> at the top, and gives a zero-duration event the height \<open>30\<close>.
\<close>

lemma getEventStyle_total: "\<exists>style. getEventStyle startTime endTime = Inr style"
  by (cases startTime; cases endTime) (simp_all add: getEventStyle_def falsy_def split_time_def Let_def)

lemma getEventStyle_missing:
  "getEventStyle None endTime = Inr \<lparr>style_top = Some 0, style_height = Some 60\<rparr>"
  "getEventStyle startTime None = Inr \<lparr>style_top = Some 0, style_height = Some 60\<rparr>"
  by (simp_all add: getEventStyle_def falsy_def)

lemma getEventStyle_zero_duration:
  "getEventStyle (Some ''09:00'') (Some ''09:00'')
     = Inr \<lparr>style_top = Some 180, style_height = Some 30\<rparr>"
  by code_simp

text \<open>
  Claim C4. An event whose start or end time is missing does not make the layout
  raise. timeToMinutes, which the week screen calls on both times of every schedule,
  has no such guard: on an absent time it raises a TypeError.
\<close>

theorem timeToMinutes_missing_raises:
  "timeToMinutes None = Inl TypeError"
  by (simp add: timeToMinutes_def)

end
